theory Spec2Isabelle
  imports Main
begin

section \<open>Data model of app.py\<close>

text \<open>
  The application is a set of HTTP handlers over three capabilities of the haystack
  library: a document store, a retriever and a reader, the last two run through a
  pipeline. The library is not part of the repository, so its operations are parameters
  of the embedding (the record \<open>haystack\<close> below) and the handlers are translated line by
  line on top of them. A Python dict is a map, a value that may be \<open>None\<close> an option.

  No handler has a \<open>try\<close> or a \<open>raise\<close>: an exception of the library passes through
  the handler to the framework. The definitions describe a request whose library calls
  return; what a handler does is then a function of what they return.
\<close>

type_synonym meta = "string \<rightharpoonup> string option"

text \<open>
  \<open>haystack.schema.Document\<close>, imported as \<open>HaystackDocument\<close>: the fields the application
  sets or reads (\<open>id\<close>, \<open>content\<close>, \<open>meta\<close>).
\<close>

record HaystackDocument =
  doc_id :: string
  doc_content :: string
  doc_meta :: meta

text \<open>The request models: \<open>name: Optional[str] = None\<close>, \<open>content: str\<close>; \<open>question: str\<close>.\<close>

record Document =
  name :: "string option"
  content :: string

record Query =
  question :: string

text \<open>
  The objects \<open>ask_document\<close> builds. \<open>BM25Retriever(document_store)\<close> takes the one
  process-wide store, so it has no argument here; \<open>FARMReader\<close> keeps its model name and
  \<open>use_gpu\<close>; \<open>ExtractiveQAPipeline(reader, retriever)\<close> keeps both.
\<close>

datatype retriever = BM25Retriever

datatype reader = FARMReader string bool

datatype pipeline = ExtractiveQAPipeline reader retriever

type_synonym params = "string \<rightharpoonup> (string \<rightharpoonup> int)"

text \<open>
  The log of what the application asks of the library: every capability it instantiates
  and every call it makes on one, oldest first.
\<close>

datatype call =
    Call_OpenSearchDocumentStore "string option" "string option" "string option" "string option" bool
  | Call_get_document_by_id string
  | Call_write_documents "HaystackDocument list"
  | Call_get_all_documents
  | Call_query string
  | Call_BM25Retriever
  | Call_FARMReader string bool
  | Call_ExtractiveQAPipeline reader retriever
  | Call_run pipeline string params

text \<open>
  The state a handler runs in: \<open>ext\<close>, the state behind the library (the index of the
  document store and whatever else the library keeps), and the log.
\<close>

record 'w world =
  ext :: 'w
  calls :: "call list"

text \<open>
  The library, as the application uses it. \<open>hs_new_id\<close> is the identifier the
  \<open>HaystackDocument\<close> constructor assigns to a document built from a content and a meta
  dict; the four \<open>document_store\<close> methods follow; \<open>hs_run\<close> is \<open>pipeline.run(query, params)\<close>
  read at \<open>result["answers"]\<close>; \<open>hs_to_dict\<close> is \<open>Answer.to_dict\<close>. Every method
  returns the state it leaves behind: nothing is assumed read-only by the types.
\<close>

record ('w, 'a, 'd) haystack =
  hs_new_id :: "string \<Rightarrow> meta \<Rightarrow> 'w \<Rightarrow> string"
  hs_get_document_by_id :: "string \<Rightarrow> 'w \<Rightarrow> HaystackDocument option \<times> 'w"
  hs_write_documents :: "HaystackDocument list \<Rightarrow> 'w \<Rightarrow> 'w"
  hs_get_all_documents :: "'w \<Rightarrow> HaystackDocument list option \<times> 'w"
  hs_query :: "string \<Rightarrow> 'w \<Rightarrow> HaystackDocument list option \<times> 'w"
  hs_run :: "pipeline \<Rightarrow> string \<Rightarrow> params \<Rightarrow> 'w \<Rightarrow> 'a list \<times> 'w"
  hs_to_dict :: "'a \<Rightarrow> 'd"

text \<open>
  What a handler returns to FastAPI: the status code and the value serialised as the
  body. \<open>Dict\<close> is a dict literal of the application, \<open>Doc\<close> and \<open>Docs\<close> a document and a
  list of documents of the store, \<open>Null\<close> the value \<open>None\<close>, \<open>Answers\<close> the list of answer
  dicts.
\<close>

datatype 'd body =
    Dict "string \<rightharpoonup> string"
  | Doc HaystackDocument
  | Docs "HaystackDocument list"
  | Null
  | Answers "'d list"

record 'd response =
  status_code :: int
  body :: "'d body"

section \<open>Start of the process\<close>

text \<open>
  The module level of app.py: four \<open>os.getenv\<close> reads (each \<open>None\<close> when the variable is
  not set) and the one \<open>OpenSearchDocumentStore(...)\<close> with \<open>verify_certs=True\<close>.
  \<open>environ\<close> is the process environment after \<open>load_dotenv()\<close>.
\<close>

definition startup :: "(string \<rightharpoonup> string) \<Rightarrow> 'w \<Rightarrow> 'w world" where
  "startup environ e =
     (let OPENSEARCH_SERVER = environ ''OPENSEARCH_SERVER'';
          OPENSEARCH_SERVER_PORT = environ ''OPENSEARCH_SERVER_PORT'';
          OPENSEARCH_USER = environ ''OPENSEARCH_USER'';
          OPENSEARCH_PASSWORD = environ ''OPENSEARCH_PASSWORD''
      in \<lparr>ext = e,
          calls = [Call_OpenSearchDocumentStore OPENSEARCH_SERVER OPENSEARCH_SERVER_PORT
                     OPENSEARCH_USER OPENSEARCH_PASSWORD True]\<rparr>)"

section \<open>Request bodies\<close>

text \<open>
  A decoded JSON object whose values are strings or null, checked against the two
  models: \<open>content\<close> and \<open>question\<close> are required strings, \<open>name\<close> is optional and
  defaults to \<open>None\<close>. \<open>None\<close> as a result is the rejection of the body.
\<close>

definition Document_validate :: "(string \<rightharpoonup> string option) \<Rightarrow> Document option" where
  "Document_validate obj =
     (case obj ''content'' of
        Some (Some c) \<Rightarrow>
          Some \<lparr>name = (case obj ''name'' of Some n \<Rightarrow> n | None \<Rightarrow> None), content = c\<rparr>
      | _ \<Rightarrow> None)"

definition Query_validate :: "(string \<rightharpoonup> string option) \<Rightarrow> Query option" where
  "Query_validate obj =
     (case obj ''question'' of
        Some (Some q) \<Rightarrow> Some \<lparr>question = q\<rparr>
      | _ \<Rightarrow> None)"

section \<open>Calls on the library\<close>

text \<open>Each call runs the library's method on \<open>ext\<close> and appends itself to the log.\<close>

definition logged :: "call \<Rightarrow> 'w \<Rightarrow> 'w world \<Rightarrow> 'w world" where
  "logged c e w = \<lparr>ext = e, calls = calls w @ [c]\<rparr>"

definition new_HaystackDocument ::
  "('w, 'a, 'd) haystack \<Rightarrow> string \<Rightarrow> meta \<Rightarrow> 'w world \<Rightarrow> HaystackDocument" where
  "new_HaystackDocument H c m w =
     \<lparr>doc_id = hs_new_id H c m (ext w), doc_content = c, doc_meta = m\<rparr>"

definition get_document_by_id ::
  "('w, 'a, 'd) haystack \<Rightarrow> string \<Rightarrow> 'w world \<Rightarrow> HaystackDocument option \<times> 'w world" where
  "get_document_by_id H document_id w =
     (case hs_get_document_by_id H document_id (ext w) of
        (r, e) \<Rightarrow> (r, logged (Call_get_document_by_id document_id) e w))"

definition write_documents ::
  "('w, 'a, 'd) haystack \<Rightarrow> HaystackDocument list \<Rightarrow> 'w world \<Rightarrow> 'w world" where
  "write_documents H ds w =
     logged (Call_write_documents ds) (hs_write_documents H ds (ext w)) w"

definition get_all_documents ::
  "('w, 'a, 'd) haystack \<Rightarrow> 'w world \<Rightarrow> HaystackDocument list option \<times> 'w world" where
  "get_all_documents H w =
     (case hs_get_all_documents H (ext w) of
        (r, e) \<Rightarrow> (r, logged Call_get_all_documents e w))"

definition query ::
  "('w, 'a, 'd) haystack \<Rightarrow> string \<Rightarrow> 'w world \<Rightarrow> HaystackDocument list option \<times> 'w world" where
  "query H q w =
     (case hs_query H q (ext w) of
        (r, e) \<Rightarrow> (r, logged (Call_query q) e w))"

definition new_BM25Retriever :: "'w world \<Rightarrow> retriever \<times> 'w world" where
  "new_BM25Retriever w = (BM25Retriever, logged Call_BM25Retriever (ext w) w)"

definition new_FARMReader :: "string \<Rightarrow> bool \<Rightarrow> 'w world \<Rightarrow> reader \<times> 'w world" where
  "new_FARMReader model use_gpu w =
     (FARMReader model use_gpu, logged (Call_FARMReader model use_gpu) (ext w) w)"

definition new_ExtractiveQAPipeline ::
  "reader \<Rightarrow> retriever \<Rightarrow> 'w world \<Rightarrow> pipeline \<times> 'w world" where
  "new_ExtractiveQAPipeline rd rt w =
     (ExtractiveQAPipeline rd rt, logged (Call_ExtractiveQAPipeline rd rt) (ext w) w)"

definition run ::
  "('w, 'a, 'd) haystack \<Rightarrow> pipeline \<Rightarrow> string \<Rightarrow> params \<Rightarrow> 'w world \<Rightarrow> 'a list \<times> 'w world" where
  "run H p q ps w =
     (case hs_run H p q ps (ext w) of
        (r, e) \<Rightarrow> (r, logged (Call_run p q ps) e w))"

section \<open>The six handlers\<close>

text \<open>
  Each handler takes the library and the state and returns the response and the state it
  leaves. The status code is the route's (\<open>status_code=200\<close> or \<open>201\<close> in the decorator,
  FastAPI's 200 for \<open>/health\<close>) unless the handler sets \<open>response.status_code\<close>.
\<close>

definition health :: "('w, 'a, 'd) haystack \<Rightarrow> 'w world \<Rightarrow> 'd response \<times> 'w world" where
  "health H w = (\<lparr>status_code = 200, body = Dict [''status'' \<mapsto> ''ok'']\<rparr>, w)"

definition get_document ::
  "('w, 'a, 'd) haystack \<Rightarrow> string \<Rightarrow> 'w world \<Rightarrow> 'd response \<times> 'w world" where
  "get_document H document_id w =
     (case get_document_by_id H document_id w of
        (document, w') \<Rightarrow>
          (case document of
             None \<Rightarrow> (\<lparr>status_code = 404, body = Dict [''error'' \<mapsto> ''Document not found'']\<rparr>, w')
           | Some d \<Rightarrow> (\<lparr>status_code = 200, body = Doc d\<rparr>, w')))"

definition save_document ::
  "('w, 'a, 'd) haystack \<Rightarrow> Document \<Rightarrow> 'w world \<Rightarrow> 'd response \<times> 'w world" where
  "save_document H document w =
     (let new_doc = new_HaystackDocument H (content document) [''name'' \<mapsto> name document] w;
          w' = write_documents H [new_doc] w
      in (\<lparr>status_code = 201, body = Dict [''id'' \<mapsto> doc_id new_doc]\<rparr>, w'))"

definition get_all_document ::
  "('w, 'a, 'd) haystack \<Rightarrow> 'w world \<Rightarrow> 'd response \<times> 'w world" where
  "get_all_document H w =
     (case get_all_documents H w of
        (documents, w') \<Rightarrow>
          (case documents of
             None \<Rightarrow> (\<lparr>status_code = 404, body = Dict [''error'' \<mapsto> ''Documents not found'']\<rparr>, w')
           | Some ds \<Rightarrow> (\<lparr>status_code = 200, body = Docs ds\<rparr>, w')))"

text \<open>\<open>search_document\<close> returns what the store's \<open>query\<close> gave, \<open>None\<close> included.\<close>

fun returned_documents :: "HaystackDocument list option \<Rightarrow> 'd body" where
  "returned_documents None = Null"
| "returned_documents (Some ds) = Docs ds"

definition search_document ::
  "('w, 'a, 'd) haystack \<Rightarrow> string \<Rightarrow> 'w world \<Rightarrow> 'd response \<times> 'w world" where
  "search_document H q w =
     (case query H q w of
        (documents, w') \<Rightarrow> (\<lparr>status_code = 200, body = returned_documents documents\<rparr>, w'))"

definition ask_document ::
  "('w, 'a, 'd) haystack \<Rightarrow> Query \<Rightarrow> 'w world \<Rightarrow> 'd response \<times> 'w world" where
  "ask_document H qry w =
     (let model = ''deepset/roberta-base-squad2'' in
      case new_BM25Retriever w of (retriever, w1) \<Rightarrow>
      case new_FARMReader model True w1 of (reader, w2) \<Rightarrow>
      case new_ExtractiveQAPipeline reader retriever w2 of (pipeline, w3) \<Rightarrow>
      case run H pipeline (question qry)
             [''Retriever'' \<mapsto> [''top_k'' \<mapsto> 10], ''Reader'' \<mapsto> [''top_k'' \<mapsto> 1]] w3 of
        (result_answers, w4) \<Rightarrow>
          (let answers = map (hs_to_dict H) result_answers
           in (\<lparr>status_code = 200, body = Answers answers\<rparr>, w4)))"

section \<open>Requests in sequence\<close>






section \<open>What the handlers rely on in the library\<close>

text \<open>
  The library's code is outside the repository. A property of a handler that needs more
  than the handler's own lines names what it needs of the library as one of the
  following contracts: a document that was written is found under its identifier;
  lookups, listing, query and a pipeline run leave the state as it is; a write leaves the
  documents under other identifiers as they are; a run returns no more answers than the
  reader's \<open>top_k\<close>.
\<close>

text \<open>What the store holds under an identifier: the result of its lookup.\<close>

definition stored :: "('w, 'a, 'd) haystack \<Rightarrow> 'w \<Rightarrow> string \<Rightarrow> HaystackDocument option" where
  "stored H e i = fst (hs_get_document_by_id H i e)"


definition queries_leave_state :: "('w, 'a, 'd) haystack \<Rightarrow> bool" where
  "queries_leave_state H \<longleftrightarrow>
     (\<forall>i w. snd (hs_get_document_by_id H i w) = w) \<and>
     (\<forall>w. snd (hs_get_all_documents H w) = w) \<and>
     (\<forall>q w. snd (hs_query H q w) = w) \<and>
     (\<forall>p q ps w. snd (hs_run H p q ps w) = w)"

definition write_frame :: "('w, 'a, 'd) haystack \<Rightarrow> bool" where
  "write_frame H \<longleftrightarrow>
     (\<forall>d w i. i \<noteq> doc_id d \<longrightarrow>
        stored H (hs_write_documents H [d] w) i = stored H w i)"

definition reader_top_k :: "('w, 'a, 'd) haystack \<Rightarrow> bool" where
  "reader_top_k H \<longleftrightarrow>
     (\<forall>p q ps w r k. ps ''Reader'' = Some r \<longrightarrow> r ''top_k'' = Some k \<longrightarrow>
        length (fst (hs_run H p q ps w)) \<le> nat k)"

section \<open>An in-memory library\<close>

text \<open>
  A small instance of \<open>haystack\<close> to run the handlers on: the documents are a list, a
  write replaces the document stored under the same identifier or appends, the identifier
  of a new document is taken from its content alone, a query keeps the documents whose
  content contains the keyword, and a run answers with the content of the candidates it
  retrieved, cut at the reader's \<open>top_k\<close> (10 where \<open>params\<close> gives none).
\<close>

fun put_document :: "HaystackDocument \<Rightarrow> HaystackDocument list \<Rightarrow> HaystackDocument list" where
  "put_document d [] = [d]"
| "put_document d (x # xs) = (if doc_id x = doc_id d then d # xs else x # put_document d xs)"

fun starts_with :: "string \<Rightarrow> string \<Rightarrow> bool" where
  "starts_with [] ys = True"
| "starts_with (x # xs) [] = False"
| "starts_with (x # xs) (y # ys) = (x = y \<and> starts_with xs ys)"

fun occurs_in :: "string \<Rightarrow> string \<Rightarrow> bool" where
  "occurs_in q [] = (q = [])"
| "occurs_in q (y # ys) = (starts_with q (y # ys) \<or> occurs_in q ys)"

definition top_k_of :: "params \<Rightarrow> string \<Rightarrow> nat" where
  "top_k_of ps node =
     (case ps node of
        None \<Rightarrow> 10
      | Some p \<Rightarrow> (case p ''top_k'' of None \<Rightarrow> 10 | Some k \<Rightarrow> nat k))"

definition memory_run ::
  "pipeline \<Rightarrow> string \<Rightarrow> params \<Rightarrow> HaystackDocument list \<Rightarrow> string list \<times> HaystackDocument list" where
  "memory_run p q ps w =
     (let candidates =
            take (top_k_of ps ''Retriever'') (filter (\<lambda>d. occurs_in q (doc_content d)) w)
      in (take (top_k_of ps ''Reader'') (map doc_content candidates), w))"

definition memory_haystack ::
  "(HaystackDocument list, string, string \<rightharpoonup> string) haystack" where
  "memory_haystack =
     \<lparr>hs_new_id = (\<lambda>c m w. c),
      hs_get_document_by_id = (\<lambda>i w. (find (\<lambda>d. doc_id d = i) w, w)),
      hs_write_documents = (\<lambda>ds w. fold put_document ds w),
      hs_get_all_documents = (\<lambda>w. (Some w, w)),
      hs_query = (\<lambda>q w. (Some (filter (\<lambda>d. occurs_in q (doc_content d)) w), w)),
      hs_run = memory_run,
      hs_to_dict = (\<lambda>a. [''answer'' \<mapsto> a])\<rparr>"

text \<open>The same library with a store whose \<open>query\<close> gives \<open>None\<close>.\<close>

definition null_query_haystack ::
  "(HaystackDocument list, string, string \<rightharpoonup> string) haystack" where
  "null_query_haystack = memory_haystack\<lparr>hs_query := (\<lambda>q w. (None, w))\<rparr>"

section \<open>The in-memory library keeps the contracts\<close>


lemma find_put_document_other:
  "i \<noteq> doc_id d \<Longrightarrow> find (\<lambda>x. doc_id x = i) (put_document d w) = find (\<lambda>x. doc_id x = i) w"
  by (induction w) auto


lemma memory_queries_leave_state: "queries_leave_state memory_haystack"
  by (simp add: queries_leave_state_def memory_haystack_def memory_run_def Let_def)

lemma memory_write_frame: "write_frame memory_haystack"
  by (simp add: write_frame_def stored_def memory_haystack_def find_put_document_other)

lemma memory_reader_top_k: "reader_top_k memory_haystack"
  by (simp add: reader_top_k_def memory_haystack_def memory_run_def top_k_of_def Let_def)

lemmas call_defs = logged_def new_HaystackDocument_def get_document_by_id_def write_documents_def
  get_all_documents_def query_def new_BM25Retriever_def new_FARMReader_def
  new_ExtractiveQAPipeline_def run_def

section \<open>A stored document through later requests\<close>



section \<open>Health check\<close>

text \<open>
  C5. The health check answers 200 with the body \<open>{"status": "ok"}\<close>, whatever the library
  and the state are; it calls nothing and leaves the state as it found it.
\<close>

theorem health_fixed:
  "health H w = (\<lparr>status_code = 200, body = Dict [''status'' \<mapsto> ''ok'']\<rparr>, w)"
  by (simp add: health_def)

section \<open>Get by identifier\<close>

text \<open>
  C3. For every identifier, get-by-id answers 404 with \<open>{"error": "Document not found"}\<close>
  exactly when the store's lookup of that identifier gives \<open>None\<close>; otherwise it answers
  200 with the document the lookup gave.
\<close>

theorem get_document_not_found_iff:
  "(fst (get_document H document_id w) =
      \<lparr>status_code = 404, body = Dict [''error'' \<mapsto> ''Document not found'']\<rparr>)
     = (fst (hs_get_document_by_id H document_id (ext w)) = None)
   \<and> fst (get_document H document_id w) =
       (case fst (hs_get_document_by_id H document_id (ext w)) of
          None \<Rightarrow> \<lparr>status_code = 404, body = Dict [''error'' \<mapsto> ''Document not found'']\<rparr>
        | Some d \<Rightarrow> \<lparr>status_code = 200, body = Doc d\<rparr>)"
  by (simp add: get_document_def get_document_by_id_def split: prod.splits option.splits)

section \<open>List all\<close>

text \<open>
  C2, as the specification states it: list-all answers 404 when the store reports an
  empty or a null result. On the empty in-memory store the store reports the empty list,
  and the handler answers 200 with the empty list: its test is \<open>documents is None\<close>.
\<close>

theorem get_all_document_empty_counterexample:
  "fst (hs_get_all_documents memory_haystack []) = Some []
   \<and> fst (get_all_document memory_haystack \<lparr>ext = [], calls = []\<rparr>) =
       \<lparr>status_code = 200, body = Docs []\<rparr>"
  by (simp add: get_all_document_def get_all_documents_def memory_haystack_def)

text \<open>
  C2, amended: list-all answers 404 with \<open>{"error": "Documents not found"}\<close> exactly when
  the store's result is \<open>None\<close>, and 200 with the list of documents the store gave
  otherwise, the empty list included.
\<close>

theorem get_all_document_null:
  "fst (get_all_document H w) =
     (case fst (hs_get_all_documents H (ext w)) of
        None \<Rightarrow> \<lparr>status_code = 404, body = Dict [''error'' \<mapsto> ''Documents not found'']\<rparr>
      | Some ds \<Rightarrow> \<lparr>status_code = 200, body = Docs ds\<rparr>)"
  by (simp add: get_all_document_def get_all_documents_def split: prod.splits option.splits)

section \<open>Save\<close>

text \<open>
  C6. Every save request makes one call on the store, \<open>write_documents\<close> of a list of one
  document built from the request's content and name, and answers 201 with
  \<open>{"id": i}\<close>, \<open>i\<close> being the identifier of that document: the one its constructor gave
  it before the write, so it is there on every answer.
\<close>

theorem save_document_writes_one:
  "\<exists>d. doc_content d = content document
     \<and> doc_meta d = [''name'' \<mapsto> name document]
     \<and> doc_id d = hs_new_id H (content document) [''name'' \<mapsto> name document] (ext w)
     \<and> save_document H document w =
         (\<lparr>status_code = 201, body = Dict [''id'' \<mapsto> doc_id d]\<rparr>,
          \<lparr>ext = hs_write_documents H [d] (ext w),
           calls = calls w @ [Call_write_documents [d]]\<rparr>)"
  by (rule exI [of _ "new_HaystackDocument H (content document) [''name'' \<mapsto> name document] w"])
     (simp add: save_document_def call_defs Let_def)




section \<open>Search\<close>

text \<open>
  C10. Search answers 200 with what the store's \<open>query\<close> gave, for every keyword and
  without a test of the result: a list of documents as it is, and \<open>None\<close> as the body
  \<open>null\<close>, not as a 404.
\<close>

theorem search_document_passes_through:
  "fst (search_document H q w) =
     \<lparr>status_code = 200,
      body = (case fst (hs_query H q (ext w)) of None \<Rightarrow> Null | Some ds \<Rightarrow> Docs ds)\<rparr>
   \<and> (fst (hs_query H q (ext w)) = None \<longrightarrow>
        fst (search_document H q w) = \<lparr>status_code = 200, body = Null\<rparr>)"
  by (simp add: search_document_def query_def split: prod.splits option.splits)

text \<open>A store whose query gives \<open>None\<close>: the answer is 200 with the body \<open>null\<close>.\<close>

theorem search_document_passes_through_witness:
  "fst (hs_query null_query_haystack ''Paris'' []) = None
   \<and> fst (search_document null_query_haystack ''Paris'' \<lparr>ext = [], calls = []\<rparr>) =
       \<lparr>status_code = 200, body = Null\<rparr>"
  using search_document_passes_through [of null_query_haystack "''Paris''" "\<lparr>ext = [], calls = []\<rparr>"]
  by (simp add: null_query_haystack_def memory_haystack_def)

section \<open>Ask\<close>

text \<open>
  C4. For every question, ask builds a retriever, a reader and a pipeline of the two,
  runs the pipeline once on the question with \<open>top_k\<close> 10 for the retriever and \<open>top_k\<close> 1
  for the reader, and answers 200 with the answers of that run, each through \<open>to_dict\<close>,
  in the run's order. With a reader that returns no more answers than its \<open>top_k\<close> the
  list has at most one element.
\<close>

theorem ask_document_steps:
  assumes "reader_top_k H"
  shows "let model = ''deepset/roberta-base-squad2'';
             p = ExtractiveQAPipeline (FARMReader model True) BM25Retriever;
             ps = [''Retriever'' \<mapsto> [''top_k'' \<mapsto> 10], ''Reader'' \<mapsto> [''top_k'' \<mapsto> 1]];
             r = hs_run H p (question qry) ps (ext w)
         in ask_document H qry w =
              (\<lparr>status_code = 200, body = Answers (map (hs_to_dict H) (fst r))\<rparr>,
               \<lparr>ext = snd r,
                calls = calls w @ [Call_BM25Retriever, Call_FARMReader model True,
                  Call_ExtractiveQAPipeline (FARMReader model True) BM25Retriever,
                  Call_run p (question qry) ps]\<rparr>)
            \<and> top_k_of ps ''Retriever'' = 10
            \<and> top_k_of ps ''Reader'' = 1
            \<and> length (map (hs_to_dict H) (fst r)) \<le> 1"
proof -
  let ?p = "ExtractiveQAPipeline (FARMReader ''deepset/roberta-base-squad2'' True) BM25Retriever"
  let ?ps = "[''Retriever'' \<mapsto> [''top_k'' \<mapsto> 10], ''Reader'' \<mapsto> [''top_k'' \<mapsto> (1::int)]]"
  have "?ps ''Reader'' = Some [''top_k'' \<mapsto> 1]" by simp
  moreover have "[''top_k'' \<mapsto> (1::int)] ''top_k'' = Some 1" by simp
  ultimately have "length (fst (hs_run H ?p (question qry) ?ps (ext w))) \<le> nat 1"
    using assms unfolding reader_top_k_def by blast
  then have bound: "length (fst (hs_run H ?p (question qry) ?ps (ext w))) \<le> 1" by simp
  have steps: "ask_document H qry w =
      (\<lparr>status_code = 200,
        body = Answers (map (hs_to_dict H) (fst (hs_run H ?p (question qry) ?ps (ext w))))\<rparr>,
       \<lparr>ext = snd (hs_run H ?p (question qry) ?ps (ext w)),
        calls = calls w @ [Call_BM25Retriever, Call_FARMReader ''deepset/roberta-base-squad2'' True,
          Call_ExtractiveQAPipeline (FARMReader ''deepset/roberta-base-squad2'' True) BM25Retriever,
          Call_run ?p (question qry) ?ps]\<rparr>)"
    by (simp add: ask_document_def call_defs Let_def split_beta)
  have ks: "top_k_of ?ps ''Retriever'' = 10 \<and> top_k_of ?ps ''Reader'' = 1"
    by (simp add: top_k_of_def)
  show ?thesis
    unfolding Let_def using steps bound ks by simp
qed

text \<open>Two documents match the question; the answer has one element.\<close>

theorem ask_document_steps_witness:
  "reader_top_k memory_haystack
   \<and> fst (ask_document memory_haystack \<lparr>question = ''France''\<rparr>
        \<lparr>ext = [\<lparr>doc_id = ''d1'', doc_content = ''Paris is in France'', doc_meta = [''name'' \<mapsto> None]\<rparr>,
                \<lparr>doc_id = ''d2'', doc_content = ''Lyon is in France'', doc_meta = [''name'' \<mapsto> None]\<rparr>],
         calls = []\<rparr>) =
       \<lparr>status_code = 200, body = Answers [[''answer'' \<mapsto> ''Paris is in France'']]\<rparr>
   \<and> length (map (hs_to_dict memory_haystack)
        (fst (hs_run memory_haystack
           (ExtractiveQAPipeline (FARMReader ''deepset/roberta-base-squad2'' True) BM25Retriever)
           ''France''
           [''Retriever'' \<mapsto> [''top_k'' \<mapsto> 10], ''Reader'' \<mapsto> [''top_k'' \<mapsto> 1]]
           [\<lparr>doc_id = ''d1'', doc_content = ''Paris is in France'', doc_meta = [''name'' \<mapsto> None]\<rparr>,
            \<lparr>doc_id = ''d2'', doc_content = ''Lyon is in France'', doc_meta = [''name'' \<mapsto> None]\<rparr>]))) \<le> 1"
  using ask_document_steps [OF memory_reader_top_k, of "\<lparr>question = ''France''\<rparr>"
      "\<lparr>ext = [\<lparr>doc_id = ''d1'', doc_content = ''Paris is in France'', doc_meta = [''name'' \<mapsto> None]\<rparr>,
                \<lparr>doc_id = ''d2'', doc_content = ''Lyon is in France'', doc_meta = [''name'' \<mapsto> None]\<rparr>],
         calls = []\<rparr>"]
    memory_reader_top_k
  by (simp add: Let_def memory_haystack_def memory_run_def top_k_of_def)

text \<open>
  C9. The start of the process instantiates the document store and nothing else: no
  retriever and no reader. Every ask request instantiates its own retriever, reader and
  pipeline before its run, and the run is on the pipeline built in that request; two
  requests in a row instantiate them twice.
\<close>

theorem ask_document_builds_its_own_pipeline:
  "calls (startup environ e) =
     [Call_OpenSearchDocumentStore (environ ''OPENSEARCH_SERVER'') (environ ''OPENSEARCH_SERVER_PORT'')
        (environ ''OPENSEARCH_USER'') (environ ''OPENSEARCH_PASSWORD'') True]
   \<and> Call_BM25Retriever \<notin> set (calls (startup environ e))
   \<and> (\<forall>m g. Call_FARMReader m g \<notin> set (calls (startup environ e)))
   \<and> (\<exists>p ps. p = ExtractiveQAPipeline (FARMReader ''deepset/roberta-base-squad2'' True) BM25Retriever
        \<and> calls (snd (ask_document H qry w)) =
            calls w @ [Call_BM25Retriever, Call_FARMReader ''deepset/roberta-base-squad2'' True,
              Call_ExtractiveQAPipeline (FARMReader ''deepset/roberta-base-squad2'' True) BM25Retriever,
              Call_run p (question qry) ps]
        \<and> calls (snd (ask_document H qry' (snd (ask_document H qry w)))) =
            calls w @ [Call_BM25Retriever, Call_FARMReader ''deepset/roberta-base-squad2'' True,
              Call_ExtractiveQAPipeline (FARMReader ''deepset/roberta-base-squad2'' True) BM25Retriever,
              Call_run p (question qry) ps,
              Call_BM25Retriever, Call_FARMReader ''deepset/roberta-base-squad2'' True,
              Call_ExtractiveQAPipeline (FARMReader ''deepset/roberta-base-squad2'' True) BM25Retriever,
              Call_run p (question qry') ps])"
proof -
  have log: "calls (snd (ask_document H q v)) =
      calls v @ [Call_BM25Retriever, Call_FARMReader ''deepset/roberta-base-squad2'' True,
        Call_ExtractiveQAPipeline (FARMReader ''deepset/roberta-base-squad2'' True) BM25Retriever,
        Call_run (ExtractiveQAPipeline (FARMReader ''deepset/roberta-base-squad2'' True) BM25Retriever)
          (question q) [''Retriever'' \<mapsto> [''top_k'' \<mapsto> 10], ''Reader'' \<mapsto> [''top_k'' \<mapsto> 1]]]"
    for q v
    by (simp add: ask_document_def call_defs Let_def split_beta)
  have start: "calls (startup environ e) =
     [Call_OpenSearchDocumentStore (environ ''OPENSEARCH_SERVER'') (environ ''OPENSEARCH_SERVER_PORT'')
        (environ ''OPENSEARCH_USER'') (environ ''OPENSEARCH_PASSWORD'') True]"
    by (simp add: startup_def)
  show ?thesis
    unfolding start
    apply (intro conjI)
       apply simp
      apply simp
     apply simp
    apply (rule exI [of _ "ExtractiveQAPipeline (FARMReader ''deepset/roberta-base-squad2'' True) BM25Retriever"])
    apply (rule exI [of _ "[''Retriever'' \<mapsto> [''top_k'' \<mapsto> 10], ''Reader'' \<mapsto> [''top_k'' \<mapsto> 1]]"])
    apply (simp only: log)
    apply simp
    done
qed

section \<open>No semantic validation\<close>

text \<open>
  C8. The request models accept every string for \<open>content\<close> and for \<open>question\<close>, the empty
  string included. A save with empty content is written and answered 201 as any other,
  and an ask with the empty question runs the pipeline and answers 200 as any other.
\<close>

theorem empty_strings_accepted:
  "Document_validate (obj(''content'' \<mapsto> Some c)) =
     Some \<lparr>name = (case obj ''name'' of Some n \<Rightarrow> n | None \<Rightarrow> None), content = c\<rparr>
   \<and> Query_validate (obj(''question'' \<mapsto> Some q)) = Some \<lparr>question = q\<rparr>
   \<and> Document_validate [''content'' \<mapsto> Some ''''] = Some \<lparr>name = None, content = ''''\<rparr>
   \<and> Query_validate [''question'' \<mapsto> Some ''''] = Some \<lparr>question = ''''\<rparr>
   \<and> (\<exists>d. doc_content d = '''' \<and> doc_meta d = [''name'' \<mapsto> n]
        \<and> save_document H \<lparr>name = n, content = ''''\<rparr> w =
            (\<lparr>status_code = 201, body = Dict [''id'' \<mapsto> doc_id d]\<rparr>,
             \<lparr>ext = hs_write_documents H [d] (ext w),
              calls = calls w @ [Call_write_documents [d]]\<rparr>))
   \<and> (\<exists>p ps. ask_document H \<lparr>question = ''''\<rparr> w =
            (\<lparr>status_code = 200, body = Answers (map (hs_to_dict H) (fst (hs_run H p '''' ps (ext w))))\<rparr>,
             \<lparr>ext = snd (hs_run H p '''' ps (ext w)),
              calls = calls w @ [Call_BM25Retriever, Call_FARMReader ''deepset/roberta-base-squad2'' True,
                Call_ExtractiveQAPipeline (FARMReader ''deepset/roberta-base-squad2'' True) BM25Retriever,
                Call_run p '''' ps]\<rparr>))"
proof (intro conjI)
  show "Document_validate (obj(''content'' \<mapsto> Some c)) =
     Some \<lparr>name = (case obj ''name'' of Some n \<Rightarrow> n | None \<Rightarrow> None), content = c\<rparr>"
    by (simp add: Document_validate_def)
  show "Query_validate (obj(''question'' \<mapsto> Some q)) = Some \<lparr>question = q\<rparr>"
    by (simp add: Query_validate_def)
  show "Document_validate [''content'' \<mapsto> Some ''''] = Some \<lparr>name = None, content = ''''\<rparr>"
    by (simp add: Document_validate_def)
  show "Query_validate [''question'' \<mapsto> Some ''''] = Some \<lparr>question = ''''\<rparr>"
    by (simp add: Query_validate_def)
  show "\<exists>d. doc_content d = '''' \<and> doc_meta d = [''name'' \<mapsto> n]
        \<and> save_document H \<lparr>name = n, content = ''''\<rparr> w =
            (\<lparr>status_code = 201, body = Dict [''id'' \<mapsto> doc_id d]\<rparr>,
             \<lparr>ext = hs_write_documents H [d] (ext w),
              calls = calls w @ [Call_write_documents [d]]\<rparr>)"
    by (rule exI [of _ "new_HaystackDocument H '''' [''name'' \<mapsto> n] w"])
       (simp add: save_document_def call_defs Let_def)
  show "\<exists>p ps. ask_document H \<lparr>question = ''''\<rparr> w =
            (\<lparr>status_code = 200, body = Answers (map (hs_to_dict H) (fst (hs_run H p '''' ps (ext w))))\<rparr>,
             \<lparr>ext = snd (hs_run H p '''' ps (ext w)),
              calls = calls w @ [Call_BM25Retriever, Call_FARMReader ''deepset/roberta-base-squad2'' True,
                Call_ExtractiveQAPipeline (FARMReader ''deepset/roberta-base-squad2'' True) BM25Retriever,
                Call_run p '''' ps]\<rparr>)"
    apply (rule exI [of _ "ExtractiveQAPipeline (FARMReader ''deepset/roberta-base-squad2'' True) BM25Retriever"])
    apply (rule exI [of _ "[''Retriever'' \<mapsto> [''top_k'' \<mapsto> 10], ''Reader'' \<mapsto> [''top_k'' \<mapsto> 1]]"])
    apply (simp add: ask_document_def call_defs Let_def split_beta)
    done
qed

section \<open>What changes the store\<close>

text \<open>
  C7, as the specification states it: save only adds a record and never modifies one
  already present. On the in-memory library, where a write replaces the document stored
  under the same identifier, a store holds a document named \<open>doc1\<close>; a save of the same
  content under the name \<open>doc2\<close> gets the same identifier, and afterwards the store holds
  one document, named \<open>doc2\<close>. The handler makes no test for an identifier already stored.
\<close>

theorem save_replaces_counterexample:
  "stored memory_haystack
     [\<lparr>doc_id = ''Paris is in France'', doc_content = ''Paris is in France'', doc_meta = [''name'' \<mapsto> Some ''doc1'']\<rparr>]
     ''Paris is in France''
     = Some \<lparr>doc_id = ''Paris is in France'', doc_content = ''Paris is in France'', doc_meta = [''name'' \<mapsto> Some ''doc1'']\<rparr>
   \<and> stored memory_haystack
       (ext (snd (save_document memory_haystack \<lparr>name = Some ''doc2'', content = ''Paris is in France''\<rparr>
          \<lparr>ext = [\<lparr>doc_id = ''Paris is in France'', doc_content = ''Paris is in France'',
                   doc_meta = [''name'' \<mapsto> Some ''doc1'']\<rparr>],
           calls = []\<rparr>)))
       ''Paris is in France''
     = Some \<lparr>doc_id = ''Paris is in France'', doc_content = ''Paris is in France'', doc_meta = [''name'' \<mapsto> Some ''doc2'']\<rparr>
   \<and> fst (hs_get_all_documents memory_haystack
       (ext (snd (save_document memory_haystack \<lparr>name = Some ''doc2'', content = ''Paris is in France''\<rparr>
          \<lparr>ext = [\<lparr>doc_id = ''Paris is in France'', doc_content = ''Paris is in France'',
                   doc_meta = [''name'' \<mapsto> Some ''doc1'']\<rparr>],
           calls = []\<rparr>))))
     = Some [\<lparr>doc_id = ''Paris is in France'', doc_content = ''Paris is in France'', doc_meta = [''name'' \<mapsto> Some ''doc2'']\<rparr>]
   \<and> [''name'' \<mapsto> Some ''doc2''] ''name'' \<noteq> [''name'' \<mapsto> Some ''doc1''] ''name''"
  by (simp add: stored_def save_document_def call_defs memory_haystack_def Let_def)

text \<open>
  C7, amended. On a library whose lookups, listing, query and run leave the state as it
  is and whose write leaves the documents under other identifiers as they are: health,
  get-by-id, list-all, search and ask leave the state of the store unchanged and call no
  write; save makes one call, the write of one new document, and every document stored
  under an identifier other than the new one is afterwards what it was. When the new
  identifier was not in the store, every document that was stored is still stored,
  unchanged.
\<close>

theorem only_save_writes:
  assumes "queries_leave_state H" and "write_frame H"
  shows "snd (health H w) = w
   \<and> snd (get_document H i w) = \<lparr>ext = ext w, calls = calls w @ [Call_get_document_by_id i]\<rparr>
   \<and> snd (get_all_document H w) = \<lparr>ext = ext w, calls = calls w @ [Call_get_all_documents]\<rparr>
   \<and> snd (search_document H q w) = \<lparr>ext = ext w, calls = calls w @ [Call_query q]\<rparr>
   \<and> (\<exists>p ps. snd (ask_document H qry w) =
         \<lparr>ext = ext w,
          calls = calls w @ [Call_BM25Retriever, Call_FARMReader ''deepset/roberta-base-squad2'' True,
            Call_ExtractiveQAPipeline (FARMReader ''deepset/roberta-base-squad2'' True) BM25Retriever,
            Call_run p (question qry) ps]\<rparr>)
   \<and> (let new_id = hs_new_id H (content document) [''name'' \<mapsto> name document] (ext w);
           w' = snd (save_document H document w)
       in body (fst (save_document H document w)) = Dict [''id'' \<mapsto> new_id]
          \<and> (\<exists>d. doc_id d = new_id
                \<and> w' = \<lparr>ext = hs_write_documents H [d] (ext w),
                         calls = calls w @ [Call_write_documents [d]]\<rparr>)
          \<and> (\<forall>j. j \<noteq> new_id \<longrightarrow> stored H (ext w') j = stored H (ext w) j)
          \<and> (stored H (ext w) new_id = None \<longrightarrow>
               (\<forall>j d. stored H (ext w) j = Some d \<longrightarrow> stored H (ext w') j = Some d)))"
proof -
  let ?d = "new_HaystackDocument H (content document) [''name'' \<mapsto> name document] w"
  have q1: "snd (hs_get_document_by_id H i (ext w)) = ext w"
    and q2: "snd (hs_get_all_documents H (ext w)) = ext w"
    and q3: "snd (hs_query H q (ext w)) = ext w"
    and q4: "snd (hs_run H p (question qry) ps (ext w)) = ext w" for p ps
    using assms(1) by (simp_all add: queries_leave_state_def)
  have h: "snd (health H w) = w"
    by (simp add: health_def)
  have g: "snd (get_document H i w) = \<lparr>ext = ext w, calls = calls w @ [Call_get_document_by_id i]\<rparr>"
    using q1 by (simp add: get_document_def get_document_by_id_def logged_def split_beta split: option.splits)
  have a: "snd (get_all_document H w) = \<lparr>ext = ext w, calls = calls w @ [Call_get_all_documents]\<rparr>"
    using q2 by (simp add: get_all_document_def get_all_documents_def logged_def split_beta split: option.splits)
  have s: "snd (search_document H q w) = \<lparr>ext = ext w, calls = calls w @ [Call_query q]\<rparr>"
    using q3 by (simp add: search_document_def query_def logged_def split_beta)
  have k: "\<exists>p ps. snd (ask_document H qry w) =
         \<lparr>ext = ext w,
          calls = calls w @ [Call_BM25Retriever, Call_FARMReader ''deepset/roberta-base-squad2'' True,
            Call_ExtractiveQAPipeline (FARMReader ''deepset/roberta-base-squad2'' True) BM25Retriever,
            Call_run p (question qry) ps]\<rparr>"
    apply (rule exI [of _ "ExtractiveQAPipeline (FARMReader ''deepset/roberta-base-squad2'' True) BM25Retriever"])
    apply (rule exI [of _ "[''Retriever'' \<mapsto> [''top_k'' \<mapsto> 10], ''Reader'' \<mapsto> [''top_k'' \<mapsto> 1]]"])
    using q4 apply (simp add: ask_document_def call_defs Let_def split_beta)
    done
  have id: "doc_id ?d = hs_new_id H (content document) [''name'' \<mapsto> name document] (ext w)"
    by (simp add: new_HaystackDocument_def)
  have sv: "save_document H document w =
      (\<lparr>status_code = 201, body = Dict [''id'' \<mapsto> doc_id ?d]\<rparr>,
       \<lparr>ext = hs_write_documents H [?d] (ext w), calls = calls w @ [Call_write_documents [?d]]\<rparr>)"
    by (simp add: save_document_def write_documents_def logged_def Let_def)
  have frame: "stored H (hs_write_documents H [?d] (ext w)) j = stored H (ext w) j"
    if "j \<noteq> doc_id ?d" for j
    using assms(2) that by (simp add: write_frame_def)
  have kept: "stored H (hs_write_documents H [?d] (ext w)) j = Some d"
    if "stored H (ext w) (doc_id ?d) = None" and "stored H (ext w) j = Some d" for j d
  proof -
    from that have "j \<noteq> doc_id ?d" by auto
    then show ?thesis using frame that(2) by simp
  qed
  have w: "\<exists>d. doc_id d = doc_id ?d
      \<and> snd (save_document H document w) =
          \<lparr>ext = hs_write_documents H [d] (ext w), calls = calls w @ [Call_write_documents [d]]\<rparr>"
    by (rule exI [of _ ?d]) (simp add: sv)
  have save: "let new_id = hs_new_id H (content document) [''name'' \<mapsto> name document] (ext w);
           w' = snd (save_document H document w)
       in body (fst (save_document H document w)) = Dict [''id'' \<mapsto> new_id]
          \<and> (\<exists>d. doc_id d = new_id
                \<and> w' = \<lparr>ext = hs_write_documents H [d] (ext w),
                         calls = calls w @ [Call_write_documents [d]]\<rparr>)
          \<and> (\<forall>j. j \<noteq> new_id \<longrightarrow> stored H (ext w') j = stored H (ext w) j)
          \<and> (stored H (ext w) new_id = None \<longrightarrow>
               (\<forall>j d. stored H (ext w) j = Some d \<longrightarrow> stored H (ext w') j = Some d))"
    unfolding Let_def id [symmetric]
    apply (intro conjI)
       apply (simp add: sv)
      apply (rule w)
     apply (simp add: sv frame)
    apply (simp add: sv kept)
    done
  from h g a s k save show ?thesis by blast
qed

text \<open>A save of new content beside a stored document: the stored one is as it was.\<close>

theorem only_save_writes_witness:
  "queries_leave_state memory_haystack \<and> write_frame memory_haystack
   \<and> ''Lyon is in France'' \<noteq> ''Paris is in France''
   \<and> stored memory_haystack
       [\<lparr>doc_id = ''Paris is in France'', doc_content = ''Paris is in France'', doc_meta = [''name'' \<mapsto> Some ''doc1'']\<rparr>]
       ''Lyon is in France'' = None
   \<and> stored memory_haystack
       [\<lparr>doc_id = ''Paris is in France'', doc_content = ''Paris is in France'', doc_meta = [''name'' \<mapsto> Some ''doc1'']\<rparr>]
       ''Paris is in France''
     = Some \<lparr>doc_id = ''Paris is in France'', doc_content = ''Paris is in France'', doc_meta = [''name'' \<mapsto> Some ''doc1'']\<rparr>
   \<and> stored memory_haystack
       (ext (snd (save_document memory_haystack \<lparr>name = None, content = ''Lyon is in France''\<rparr>
          \<lparr>ext = [\<lparr>doc_id = ''Paris is in France'', doc_content = ''Paris is in France'',
                   doc_meta = [''name'' \<mapsto> Some ''doc1'']\<rparr>],
           calls = []\<rparr>)))
       ''Paris is in France''
     = Some \<lparr>doc_id = ''Paris is in France'', doc_content = ''Paris is in France'', doc_meta = [''name'' \<mapsto> Some ''doc1'']\<rparr>"
  using only_save_writes [OF memory_queries_leave_state memory_write_frame,
      of "\<lparr>ext = [\<lparr>doc_id = ''Paris is in France'', doc_content = ''Paris is in France'',
                   doc_meta = [''name'' \<mapsto> Some ''doc1'']\<rparr>], calls = []\<rparr>"
         "''Paris is in France''" "''Paris''" "\<lparr>question = ''France''\<rparr>"
         "\<lparr>name = None, content = ''Lyon is in France''\<rparr>"]
    memory_queries_leave_state memory_write_frame
  by (simp add: stored_def Let_def memory_haystack_def)

end
